theory Spec2Isabelle
  imports Main
begin

section \<open>Document nodes\<close>

text \<open>
  The commands and predicates of \<^verbatim>\<open>user_commands.js\<close> read four things of a DOM node:
  \<^verbatim>\<open>tagName\<close>, \<^verbatim>\<open>getAttribute\<close> (tested for presence before it is called),
  \<^verbatim>\<open>type\<close> and \<^verbatim>\<open>checked\<close>. A node without a tag name (a text node) has
  \<open>tagName = None\<close>; a node without the method \<^verbatim>\<open>getAttribute\<close> has
  \<open>attributes = None\<close>; an attribute that is not set reads as \<open>None\<close> (JavaScript's null).
  \<open>nodeId\<close> stands for the identity of the object.
\<close>

record node =
  nodeId :: nat
  tagName :: "string option"
  attributes :: "(string \<times> string) list option"
  inputType :: "string option"
  checked :: bool

text \<open>\<^verbatim>\<open>n.getAttribute && n.getAttribute('role') == r\<close>, the test most predicates start with.\<close>

definition roleIs :: "node \<Rightarrow> string \<Rightarrow> bool" where
  "roleIs n r = (case attributes n of None \<Rightarrow> False | Some as \<Rightarrow> map_of as ''role'' = Some r)"

text \<open>
  Functions of \<^verbatim>\<open>cvox.DomUtil\<close> and \<^verbatim>\<open>cvox.AriaUtil\<close> that the source calls and
  that are defined in other files: they are parameters of the model.
\<close>

record domUtil =
  isInputTypeText :: "node \<Rightarrow> bool"
  isLandmark :: "node \<Rightarrow> bool"
  isControlWidget :: "node \<Rightarrow> bool"


section \<open>Predicates over the changed ancestors\<close>

text \<open>
  Each predicate takes the array of ancestor nodes that changed and returns a node of the
  array or null (\<open>None\<close>). The \<^verbatim>\<open>for\<close> loops run from index 0 upwards and return at
  the first node that passes the test: recursion on the list. The trailing underscore of the
  private names of the source is dropped throughout, since a constant name cannot end with one.
\<close>

fun checkboxPredicate :: "node list \<Rightarrow> node option" where
  "checkboxPredicate [] = None"
| "checkboxPredicate (n # nodes) =
     (if roleIs n ''checkbox'' \<or> (tagName n = Some ''INPUT'' \<and> inputType n = Some ''checkbox'')
      then Some n else checkboxPredicate nodes)"

fun radioPredicate :: "node list \<Rightarrow> node option" where
  "radioPredicate [] = None"
| "radioPredicate (n # nodes) =
     (if roleIs n ''radio'' \<or> (tagName n = Some ''INPUT'' \<and> inputType n = Some ''radio'')
      then Some n else radioPredicate nodes)"

fun sliderPredicate :: "node list \<Rightarrow> node option" where
  "sliderPredicate [] = None"
| "sliderPredicate (n # nodes) =
     (if roleIs n ''slider'' \<or> (tagName n = Some ''INPUT'' \<and> inputType n = Some ''range'')
      then Some n else sliderPredicate nodes)"

fun graphicPredicate :: "node list \<Rightarrow> node option" where
  "graphicPredicate [] = None"
| "graphicPredicate (n # nodes) =
     (if tagName n = Some ''IMG'' \<or> (tagName n = Some ''INPUT'' \<and> inputType n = Some ''img'')
      then Some n else graphicPredicate nodes)"

fun buttonPredicate :: "node list \<Rightarrow> node option" where
  "buttonPredicate [] = None"
| "buttonPredicate (n # nodes) =
     (if roleIs n ''button'' \<or> tagName n = Some ''BUTTON''
         \<or> (tagName n = Some ''INPUT'' \<and> inputType n = Some ''submit'')
         \<or> (tagName n = Some ''INPUT'' \<and> inputType n = Some ''button'')
         \<or> (tagName n = Some ''INPUT'' \<and> inputType n = Some ''reset'')
      then Some n else buttonPredicate nodes)"

fun comboBoxPredicate :: "node list \<Rightarrow> node option" where
  "comboBoxPredicate [] = None"
| "comboBoxPredicate (n # nodes) =
     (if roleIs n ''combobox'' \<or> tagName n = Some ''SELECT''
      then Some n else comboBoxPredicate nodes)"

fun editTextPredicate :: "domUtil \<Rightarrow> node list \<Rightarrow> node option" where
  "editTextPredicate U [] = None"
| "editTextPredicate U (n # nodes) =
     (if roleIs n ''textbox'' \<or> tagName n = Some ''TEXTAREA''
         \<or> (tagName n = Some ''INPUT'' \<and> isInputTypeText U n)
      then Some n else editTextPredicate U nodes)"

text \<open>The six cases of the \<^verbatim>\<open>switch\<close> on the tag name in the heading and jump predicates.\<close>

definition headingTags :: "string list" where
  "headingTags = [''H1'', ''H2'', ''H3'', ''H4'', ''H5'', ''H6'']"

fun headingPredicate :: "node list \<Rightarrow> node option" where
  "headingPredicate [] = None"
| "headingPredicate (n # nodes) =
     (if roleIs n ''heading'' then Some n
      else if tagName n \<in> set (map Some headingTags) then Some n
      else headingPredicate nodes)"

text \<open>
  \<^verbatim>\<open>containsTagName_\<close>: \<^verbatim>\<open>var i = arr.length; while (i--) { if (arr[i].tagName == tagName) return arr[i]; }\<close>.
  The loop tests \<open>i\<close>, decrements it and then reads \<open>arr[i]\<close>, so it visits the indices
  \<open>length arr - 1\<close> down to 0.
\<close>

fun containsTagName_loop :: "node list \<Rightarrow> string \<Rightarrow> nat \<Rightarrow> node option" where
  "containsTagName_loop arr tag 0 = None"
| "containsTagName_loop arr tag (Suc i) =
     (if tagName (arr ! i) = Some tag then Some (arr ! i) else containsTagName_loop arr tag i)"

definition containsTagName :: "node list \<Rightarrow> string \<Rightarrow> node option" where
  "containsTagName arr tag = containsTagName_loop arr tag (length arr)"

definition heading1Predicate :: "node list \<Rightarrow> node option" where
  "heading1Predicate nodes = containsTagName nodes ''H1''"

definition heading2Predicate :: "node list \<Rightarrow> node option" where
  "heading2Predicate nodes = containsTagName nodes ''H2''"

definition heading3Predicate :: "node list \<Rightarrow> node option" where
  "heading3Predicate nodes = containsTagName nodes ''H3''"

definition heading4Predicate :: "node list \<Rightarrow> node option" where
  "heading4Predicate nodes = containsTagName nodes ''H4''"

definition heading5Predicate :: "node list \<Rightarrow> node option" where
  "heading5Predicate nodes = containsTagName nodes ''H5''"

definition heading6Predicate :: "node list \<Rightarrow> node option" where
  "heading6Predicate nodes = containsTagName nodes ''H6''"

fun linkPredicate :: "node list \<Rightarrow> node option" where
  "linkPredicate [] = None"
| "linkPredicate (n # nodes) =
     (if roleIs n ''link'' \<or> tagName n = Some ''A'' then Some n else linkPredicate nodes)"

text \<open>\<^verbatim>\<open>return linkPredicate_(nodes) == null\<close>: a boolean, not a node.\<close>

definition notLinkPredicate :: "node list \<Rightarrow> bool" where
  "notLinkPredicate nodes = (linkPredicate nodes = None)"

definition tablePredicate :: "node list \<Rightarrow> node option" where
  "tablePredicate nodes = containsTagName nodes ''TABLE''"

fun listPredicate :: "node list \<Rightarrow> node option" where
  "listPredicate [] = None"
| "listPredicate (n # nodes) =
     (if roleIs n ''list'' \<or> tagName n = Some ''UL'' \<or> tagName n = Some ''OL''
      then Some n else listPredicate nodes)"

fun listItemPredicate :: "node list \<Rightarrow> node option" where
  "listItemPredicate [] = None"
| "listItemPredicate (n # nodes) =
     (if roleIs n ''listitem'' \<or> tagName n = Some ''LI'' then Some n else listItemPredicate nodes)"

definition blockquotePredicate :: "node list \<Rightarrow> node option" where
  "blockquotePredicate nodes = containsTagName nodes ''BLOCKQUOTE''"

text \<open>
  In the form field predicate \<^verbatim>\<open>role\<close> starts as the empty string and is overwritten by
  \<^verbatim>\<open>getAttribute('role')\<close> (possibly null) when the node has the method.
\<close>

definition formFieldRole :: "node \<Rightarrow> string option" where
  "formFieldRole n = (case attributes n of None \<Rightarrow> Some [] | Some as \<Rightarrow> map_of as ''role'')"

fun formFieldPredicate :: "node list \<Rightarrow> node option" where
  "formFieldPredicate [] = None"
| "formFieldPredicate (n # nodes) =
     (if formFieldRole n \<in> set (map Some [''button'', ''checkbox'', ''combobox'', ''radio'',
                                            ''slider'', ''spinbutton'', ''textbox''])
         \<or> tagName n = Some ''INPUT'' \<or> tagName n = Some ''SELECT'' \<or> tagName n = Some ''BUTTON''
      then Some n else formFieldPredicate nodes)"

fun jumpPredicate :: "domUtil \<Rightarrow> node list \<Rightarrow> node option" where
  "jumpPredicate U [] = None"
| "jumpPredicate U (n # nodes) =
     (if isLandmark U n then Some n
      else if roleIs n ''heading'' then Some n
      else if tagName n \<in> set (map Some headingTags) then Some n
      else jumpPredicate U nodes)"

fun landmarkPredicate :: "domUtil \<Rightarrow> node list \<Rightarrow> node option" where
  "landmarkPredicate U [] = None"
| "landmarkPredicate U (n # nodes) =
     (if isLandmark U n then Some n else landmarkPredicate U nodes)"


section \<open>User commands\<close>

subsection \<open>The navigation manager and the state of the page\<close>

text \<open>
  \<^verbatim>\<open>cvox.ChromeVox.navigationManager\<close> is defined in another file. Its state is a type
  parameter \<open>'m\<close> and its methods are parameters: a method that moves returns its boolean
  result and the new state, a query reads the state. \<open>'p\<close> is the type of the predicates
  handed to \<^verbatim>\<open>findNext\<close> and \<^verbatim>\<open>findPrevious\<close> (the commands pass them on and never
  call them), \<open>'d\<close> the type of the description objects of \<^verbatim>\<open>getCurrentDescription\<close>.
\<close>

record ('m, 'p, 'd) navigationManager =
  nm_next :: "bool \<Rightarrow> 'm \<Rightarrow> bool \<times> 'm"
  nm_previous :: "bool \<Rightarrow> 'm \<Rightarrow> bool \<times> 'm"
  nm_findNext :: "'p \<Rightarrow> 'm \<Rightarrow> bool \<times> 'm"
  nm_findPrevious :: "'p \<Rightarrow> 'm \<Rightarrow> bool \<times> 'm"
  nm_inTableMode :: "'m \<Rightarrow> bool"
  nm_checkCellBoundaries :: "'m \<Rightarrow> bool"
  nm_getCurrentDescription :: "'m \<Rightarrow> 'd list"
  nm_getChangedAncestors :: "'m \<Rightarrow> node list"
  nm_setFocus :: "'m \<Rightarrow> 'm"
  nm_syncToSelection :: "'m \<Rightarrow> 'm"
  util :: domUtil

datatype earcon = BUTTON | CHECK_OFF | CHECK_ON | LISTBOX | EDITABLE_TEXT | LINK | LIST_ITEM

text \<open>
  What a command sends to the outside, in order: \<^verbatim>\<open>tts.speak(text, queueMode,
  PERSONALITY_ANNOTATION)\<close>, \<^verbatim>\<open>description.speak(queueMode)\<close>,
  \<^verbatim>\<open>SelectionUtil.scrollToSelection(window.getSelection())\<close> and
  \<^verbatim>\<open>earcons.playEarcon(e)\<close>.
\<close>

datatype 'd effect =
    TtsSpeak string nat
  | DescriptionSpeak 'd nat
  | ScrollToSelection
  | PlayEarcon earcon

text \<open>The two callbacks the modelled functions hand to \<^verbatim>\<open>setTimeout\<close>.\<close>

datatype timerAction = DecrementUserCommandLevel | SetFocus

datatype error = TypeError

text \<open>
  The mutable state the commands work on: the navigation manager, the counter
  \<^verbatim>\<open>userCommandLevel_\<close> (initially 0), the clock and the pending timers of the host
  (each with the time it is due), and what has been sent out so far.
\<close>

record ('m, 'd) page =
  navigationManager :: 'm
  userCommandLevel :: int
  now :: nat
  timers :: "(nat \<times> timerAction) list"
  sent :: "'d effect list"

definition setTimeout :: "timerAction \<Rightarrow> nat \<Rightarrow> ('m, 'd) page \<Rightarrow> ('m, 'd) page" where
  "setTimeout f delay S = S\<lparr>timers := timers S @ [(now S + delay, f)]\<rparr>"

definition send :: "'d effect \<Rightarrow> ('m, 'd) page \<Rightarrow> ('m, 'd) page" where
  "send x S = S\<lparr>sent := sent S @ [x]\<rparr>"

subsection \<open>The guard against re-entrancy\<close>

definition markInUserCommand :: "('m, 'd) page \<Rightarrow> ('m, 'd) page" where
  "markInUserCommand S =
     setTimeout DecrementUserCommandLevel 100 (S\<lparr>userCommandLevel := userCommandLevel S + 1\<rparr>)"

definition isInUserCommand :: "('m, 'd) page \<Rightarrow> bool" where
  "isInUserCommand S = (userCommandLevel S > 0)"

text \<open>
  The host's timers. \<open>runTimer\<close> is the body of a callback; \<open>advanceTo M t\<close> lets the
  clock reach \<open>t\<close>: the callbacks due by then run, earliest first and in the order they
  were set when due together, and the others stay pending. The state at time \<open>t\<close> is the
  one after the callbacks due at \<open>t\<close> have run.
\<close>

definition runTimer :: "('m, 'p, 'd) navigationManager \<Rightarrow> timerAction \<Rightarrow> ('m, 'd) page \<Rightarrow> ('m, 'd) page" where
  "runTimer M f S =
     (case f of
        DecrementUserCommandLevel \<Rightarrow> S\<lparr>userCommandLevel := userCommandLevel S - 1\<rparr>
      | SetFocus \<Rightarrow> S\<lparr>navigationManager := nm_setFocus M (navigationManager S)\<rparr>)"

definition advanceTo :: "('m, 'p, 'd) navigationManager \<Rightarrow> nat \<Rightarrow> ('m, 'd) page \<Rightarrow> ('m, 'd) page" where
  "advanceTo M t S =
     foldl (\<lambda>s df. runTimer M (snd df) s)
       (S\<lparr>now := max (now S) t, timers := filter (\<lambda>df. \<not> fst df \<le> t) (timers S)\<rparr>)
       (sort_key fst (filter (\<lambda>df. fst df \<le> t) (timers S)))"

subsection \<open>Finishing a navigation command\<close>

text \<open>
  \<^verbatim>\<open>playEarcons\<close> first collects the earcons of the changed ancestors, then plays them.
  For a node that \<^verbatim>\<open>AriaUtil.isControlWidget\<close> accepts it calls
  \<^verbatim>\<open>node.getAttribute('role')\<close> without testing for the method: a TypeError when the node
  has none. \<^verbatim>\<open>!node.getAttribute('aria-checked')\<close> holds for null and for the empty string.
\<close>

definition earconsOfNode :: "domUtil \<Rightarrow> node \<Rightarrow> error + earcon list" where
  "earconsOfNode U n =
     (if isControlWidget U n then
        (case attributes n of
           None \<Rightarrow> Inl TypeError
         | Some as \<Rightarrow>
             (let role = map_of as ''role'' in
              Inr (if role = Some ''button'' then [BUTTON]
                   else if role \<in> set (map Some [''checkbox'', ''radio'', ''menuitemcheckbox'', ''menuitemradio''])
                     then (if map_of as ''aria-checked'' \<in> {None, Some []} then [CHECK_OFF] else [CHECK_ON])
                   else if role = Some ''combobox'' then [LISTBOX]
                   else if role = Some ''textbox'' then [EDITABLE_TEXT]
                   else [])))
      else
        Inr (if tagName n = Some ''BUTTON'' then [BUTTON]
             else if tagName n = Some ''A'' then [LINK]
             else if tagName n = Some ''LI'' then [LIST_ITEM]
             else if tagName n = Some ''SELECT'' then [LISTBOX]
             else if tagName n = Some ''TEXTAREA'' then [EDITABLE_TEXT]
             else if tagName n = Some ''INPUT'' then
               (if inputType n \<in> set (map Some [''button'', ''submit'', ''reset'']) then [BUTTON]
                else if inputType n \<in> set (map Some [''checkbox'', ''radio''])
                  then (if checked n then [CHECK_ON] else [CHECK_OFF])
                else if isInputTypeText U n then [EDITABLE_TEXT]
                else [])
             else []))"

fun collectEarcons :: "domUtil \<Rightarrow> node list \<Rightarrow> earcon list \<Rightarrow> error + earcon list" where
  "collectEarcons U [] earcons = Inr earcons"
| "collectEarcons U (n # ancestors) earcons =
     (case earconsOfNode U n of
        Inl e \<Rightarrow> Inl e
      | Inr es \<Rightarrow> collectEarcons U ancestors (earcons @ es))"

text \<open>
  A command returns its result, or the error it threw, together with the state it leaves:
  what it did before throwing stays done.
\<close>

definition playEarcons :: "('m, 'p, 'd) navigationManager \<Rightarrow> ('m, 'd) page \<Rightarrow> (error + unit) \<times> ('m, 'd) page" where
  "playEarcons M S =
     (case collectEarcons (util M) (nm_getChangedAncestors M (navigationManager S)) [] of
        Inl e \<Rightarrow> (Inl e, S)
      | Inr earcons \<Rightarrow> (Inr (), foldl (\<lambda>s e. send (PlayEarcon e) s) S earcons))"

text \<open>
  The loop over the description array: each description is spoken with the current queue
  mode, which is 1 after the first thing spoken.
\<close>

fun speakDescriptions :: "'d list \<Rightarrow> nat \<Rightarrow> ('m, 'd) page \<Rightarrow> ('m, 'd) page" where
  "speakDescriptions [] queueMode S = S"
| "speakDescriptions (d # ds) queueMode S = speakDescriptions ds 1 (send (DescriptionSpeak d queueMode) S)"

definition finishNavCommand :: "('m, 'p, 'd) navigationManager \<Rightarrow> string \<Rightarrow> ('m, 'd) page \<Rightarrow> (error + unit) \<times> ('m, 'd) page" where
  "finishNavCommand M messagePrefixStr S =
     (let descriptionArray = nm_getCurrentDescription M (navigationManager S);
          S1 = setTimeout SetFocus 0 S;
          S2 = send ScrollToSelection S1;
          S3 = S2\<lparr>navigationManager := nm_syncToSelection M (navigationManager S2)\<rparr>;
          S4 = (if messagePrefixStr \<noteq> [] then send (TtsSpeak messagePrefixStr 0) S3 else S3);
          queueMode = (if messagePrefixStr \<noteq> [] then 1 else 0);
          S5 = speakDescriptions descriptionArray queueMode S4
      in playEarcons M S5)"

subsection \<open>Moving forward and backward\<close>

definition forward :: "('m, 'p, 'd) navigationManager \<Rightarrow> ('m, 'd) page \<Rightarrow> (error + bool) \<times> ('m, 'd) page" where
  "forward M S =
     (let S1 = markInUserCommand S;
          (navSucceeded, m1) = nm_next M True (navigationManager S1);
          S2 = S1\<lparr>navigationManager := m1\<rparr>
      in if nm_inTableMode M (navigationManager S2) \<and> \<not> nm_checkCellBoundaries M (navigationManager S2)
         then
           (let (navSucceeded', m3) = nm_previous M True (navigationManager S2);
                (r, S4) = finishNavCommand M ''End of cell. '' (S2\<lparr>navigationManager := m3\<rparr>)
            in (map_sum id (\<lambda>_. \<not> navSucceeded') r, S4))
         else
           (let (r, S4) = finishNavCommand M [] S2
            in (map_sum id (\<lambda>_. \<not> navSucceeded) r, S4)))"

definition backward :: "('m, 'p, 'd) navigationManager \<Rightarrow> ('m, 'd) page \<Rightarrow> (error + bool) \<times> ('m, 'd) page" where
  "backward M S =
     (let S1 = markInUserCommand S;
          (navSucceeded, m1) = nm_previous M True (navigationManager S1);
          S2 = S1\<lparr>navigationManager := m1\<rparr>
      in if nm_inTableMode M (navigationManager S2) \<and> \<not> nm_checkCellBoundaries M (navigationManager S2)
         then
           (let (navSucceeded', m3) = nm_next M True (navigationManager S2);
                (r, S4) = finishNavCommand M ''End of cell. '' (S2\<lparr>navigationManager := m3\<rparr>)
            in (map_sum id (\<lambda>_. \<not> navSucceeded') r, S4))
         else
           (let (r, S4) = finishNavCommand M [] S2
            in (map_sum id (\<lambda>_. \<not> navSucceeded) r, S4)))"

subsection \<open>Finding the next or previous match\<close>

text \<open>
  Both drivers return nothing. On success both do \<^verbatim>\<open>previous(true)\<close> and then the
  \<^verbatim>\<open>forward\<close> command, whose boolean result is dropped.
\<close>

definition findNextAndSpeak :: "('m, 'p, 'd) navigationManager \<Rightarrow> 'p \<Rightarrow> string \<Rightarrow> ('m, 'd) page \<Rightarrow> (error + unit) \<times> ('m, 'd) page" where
  "findNextAndSpeak M predicate errorStr S =
     (let S1 = markInUserCommand S;
          (found, m1) = nm_findNext M predicate (navigationManager S1);
          S2 = S1\<lparr>navigationManager := m1\<rparr>
      in if \<not> found then (Inr (), send (TtsSpeak errorStr 0) S2)
         else
           (let (b, m3) = nm_previous M True (navigationManager S2);
                (r, S4) = forward M (S2\<lparr>navigationManager := m3\<rparr>)
            in (map_sum id (\<lambda>_. ()) r, S4)))"

definition findPreviousAndSpeak :: "('m, 'p, 'd) navigationManager \<Rightarrow> 'p \<Rightarrow> string \<Rightarrow> ('m, 'd) page \<Rightarrow> (error + unit) \<times> ('m, 'd) page" where
  "findPreviousAndSpeak M predicate errorStr S =
     (let S1 = markInUserCommand S;
          (found, m1) = nm_findPrevious M predicate (navigationManager S1);
          S2 = S1\<lparr>navigationManager := m1\<rparr>
      in if \<not> found then (Inr (), send (TtsSpeak errorStr 0) S2)
         else
           (let (b, m3) = nm_previous M True (navigationManager S2);
                (r, S4) = forward M (S2\<lparr>navigationManager := m3\<rparr>)
            in (map_sum id (\<lambda>_. ()) r, S4)))"


section \<open>The layout line walker\<close>

subsection \<open>Cursors and selections\<close>

text \<open>
  Modelled from the spec: the classes \<^verbatim>\<open>cvox.Cursor\<close> and \<^verbatim>\<open>cvox.CursorSelection\<close> are
  not among the source files. A cursor is a node and an offset into it, and two cursors are
  equal when both agree. A selection is a start cursor, an end cursor and the flag
  \<^verbatim>\<open>reversed\<close>. The walker reads \<^verbatim>\<open>end\<close> as the endpoint the selection is directed to
  (its own comment on \<^verbatim>\<open>new CursorSelection(sel.end, sel.end, sel.isReversed())\<close> is
  "collapse selection to the directed end", \<^verbatim>\<open>sync\<close> takes the far end of the
  backward extension from \<^verbatim>\<open>start.end\<close>, and \<^verbatim>\<open>getDescription\<close> obtains the
  selection in document order, \<^verbatim>\<open>absSel\<close>, by \<^verbatim>\<open>setReversed(false)\<close>), so
  \<^verbatim>\<open>setReversed\<close> exchanges the two cursors when it changes the flag and leaves the
  selection as it is otherwise: a selection that is not reversed runs from \<^verbatim>\<open>start\<close> to
  \<^verbatim>\<open>end\<close> in document order, a reversed one from \<^verbatim>\<open>end\<close> to \<^verbatim>\<open>start\<close>. The
  constructor stores its arguments; a third argument left out means not reversed.
  \<^verbatim>\<open>setReversed\<close> changes the object it is called on and returns it; the walker calls it
  on objects it has just received or copied, so the model passes values. \<^verbatim>\<open>clone\<close>
  copies, which is the identity on values. Two selections are absolute-equal when they cover
  the same range, whatever their flags.
\<close>

record 'n cursor =
  node :: 'n
  index :: int

record 'n cursorSelection =
  start :: "'n cursor"
  end' :: "'n cursor"
  isReversed :: bool

definition CursorSelection :: "'n cursor \<Rightarrow> 'n cursor \<Rightarrow> bool \<Rightarrow> 'n cursorSelection" where
  "CursorSelection s e r = \<lparr>start = s, end' = e, isReversed = r\<rparr>"

definition setReversed :: "bool \<Rightarrow> 'n cursorSelection \<Rightarrow> 'n cursorSelection" where
  "setReversed r sel =
     (if r = isReversed sel then sel
      else \<lparr>start = end' sel, end' = start sel, isReversed = r\<rparr>)"

definition absEquals :: "'n cursorSelection \<Rightarrow> 'n cursorSelection \<Rightarrow> bool" where
  "absEquals a b =
     ((start a = start b \<and> end' a = end' b) \<or> (end' a = start b \<and> start a = end' b))"

subsection \<open>What the walker is given\<close>

text \<open>
  The walker owns a \<^verbatim>\<open>cvox.StructuralLineWalker\<close> (\<^verbatim>\<open>this.subWalker_\<close>), defined in
  another file: its four methods are parameters, \<^verbatim>\<open>sync\<close> and \<^verbatim>\<open>next\<close> returning null
  as \<open>None\<close>. They do not change their arguments, and the selections they return are new
  objects, so that the \<^verbatim>\<open>setReversed\<close> calls of the walker on a returned selection leave
  the selection the walker was called with as it is. Of the braille object a structural line produces the walker reads the text,
  its length and the start of the value span (null when there is none). \<open>boundingBottom\<close> is
  \<^verbatim>\<open>sel.getRange().getBoundingClientRect().bottom\<close>, of any type with equality. The other
  fields are what \<^verbatim>\<open>appendBraille_\<close> asks of a node and of \<^verbatim>\<open>cvox.BrailleUtil\<close>, and the
  result of \<^verbatim>\<open>new cvox.NavBraille({})\<close>.
\<close>

record brailleItem =
  itemString :: string
  valueSpanStart :: "int option"

record 'n navBraille =
  brailleText :: string
  brailleSpans :: "('n \<times> int \<times> int) list"
  startIndex :: int
  endIndex :: int

record ('n, 'r, 'd) walker =
  subWalker_sync :: "'n cursorSelection \<Rightarrow> 'n cursorSelection option"
  subWalker_next :: "'n cursorSelection \<Rightarrow> 'n cursorSelection option"
  subWalker_getDescription :: "'n cursorSelection \<Rightarrow> 'n cursorSelection \<Rightarrow> 'd list"
  subWalker_getBraille :: "'n cursorSelection \<Rightarrow> 'n cursorSelection \<Rightarrow> brailleItem"
  boundingBottom :: "'n cursorSelection \<Rightarrow> 'r"
  nodeIsInputTypeText :: "'n \<Rightarrow> bool"
  nodeIsTextArea :: "'n \<Rightarrow> bool"
  nodeSelectionStart :: "'n \<Rightarrow> int"
  nodeSelectionEnd :: "'n \<Rightarrow> int"
  ITEM_SEPARATOR :: string
  newNavBraille :: "'n navBraille"

subsection \<open>Extending to the visual line break\<close>

definition isVisualLineBreak :: "('n, 'r, 'd) walker \<Rightarrow> 'n cursorSelection \<Rightarrow> 'n cursorSelection \<Rightarrow> bool" where
  "isVisualLineBreak W lSel rSel = (boundingBottom W lSel \<noteq> boundingBottom W rSel)"

text \<open>
  The loop of \<^verbatim>\<open>extend_\<close>: \<^verbatim>\<open>do { end = next; next = subWalker.next(end); } while (next &&
  !isVisualLineBreak_(end, next))\<close>, as a function of the selection that becomes \<^verbatim>\<open>end\<close>; it
  returns the last \<^verbatim>\<open>end\<close>. Nothing bounds the loop, so the function is partial: \<open>None\<close>
  means that it does not return.
\<close>

partial_function (option) extend_loop :: "('n, 'r, 'd) walker \<Rightarrow> 'n cursorSelection \<Rightarrow> 'n cursorSelection option" where
  "extend_loop W e =
     (case subWalker_next W e of
        None \<Rightarrow> Some e
      | Some nxt \<Rightarrow> if isVisualLineBreak W e nxt then Some e else extend_loop W nxt)"

definition LayoutLineWalker_extend :: "('n, 'r, 'd) walker \<Rightarrow> 'n cursorSelection \<Rightarrow> 'n cursorSelection option" where
  "LayoutLineWalker_extend W s =
     (case extend_loop W s of
        None \<Rightarrow> None
      | Some e \<Rightarrow> Some (CursorSelection (start s) (end' e) (isReversed s)))"

subsection \<open>next and sync\<close>

text \<open>
  The results are of type \<open>'n cursorSelection option option\<close>: \<open>None\<close> when the call does
  not return, \<open>Some None\<close> when it returns null, \<open>Some (Some r)\<close> when it returns \<open>r\<close>.
\<close>

definition LayoutLineWalker_next :: "('n, 'r, 'd) walker \<Rightarrow> 'n cursorSelection \<Rightarrow> 'n cursorSelection option option" where
  "LayoutLineWalker_next W sel =
     (let endSel = CursorSelection (end' sel) (end' sel) (isReversed sel) in
      case subWalker_sync W endSel of
        None \<Rightarrow> Some None
      | Some sync \<Rightarrow>
          (case subWalker_next W endSel of
             None \<Rightarrow> Some None
           | Some start0 \<Rightarrow>
               (case LayoutLineWalker_extend W (setReversed (isReversed sel) start0) of
                  None \<Rightarrow> None
                | Some r \<Rightarrow> Some (Some (setReversed False r)))))"

definition LayoutLineWalker_sync :: "('n, 'r, 'd) walker \<Rightarrow> 'n cursorSelection \<Rightarrow> 'n cursorSelection option option" where
  "LayoutLineWalker_sync W sel =
     (case subWalker_sync W sel of
        None \<Rightarrow> Some None
      | Some line \<Rightarrow>
          (case LayoutLineWalker_extend W line of
             None \<Rightarrow> None
           | Some e \<Rightarrow>
               (case LayoutLineWalker_extend W (setReversed (\<not> isReversed line) line) of
                  None \<Rightarrow> None
                | Some s \<Rightarrow> Some (Some (CursorSelection (end' s) (end' e) (isReversed sel))))))"

subsection \<open>Descriptions\<close>

text \<open>
  The \<^verbatim>\<open>while\<close> loop of \<^verbatim>\<open>getDescription\<close> with the three variables it changes;
  \<open>absEnd\<close> is \<^verbatim>\<open>absSel.end\<close>. It returns \<^verbatim>\<open>prev\<close>, \<^verbatim>\<open>cur\<close> and
  \<^verbatim>\<open>descriptions\<close> as they are when the loop is left.
\<close>

partial_function (option) getDescription_loop ::
    "('n, 'r, 'd) walker \<Rightarrow> 'n cursor \<Rightarrow> 'n cursorSelection \<Rightarrow> 'n cursorSelection option \<Rightarrow> 'd list
      \<Rightarrow> ('n cursorSelection \<times> 'n cursorSelection option \<times> 'd list) option" where
  "getDescription_loop W absEnd prev cur descriptions =
     (case cur of
        None \<Rightarrow> Some (prev, cur, descriptions)
      | Some c \<Rightarrow>
          if end' c = absEnd then Some (prev, cur, descriptions)
          else getDescription_loop W absEnd c (subWalker_next W c)
                 (descriptions @ subWalker_getDescription W prev c))"

definition LayoutLineWalker_getDescription :: "('n, 'r, 'd) walker \<Rightarrow> 'n cursorSelection \<Rightarrow> 'n cursorSelection \<Rightarrow> 'd list option" where
  "LayoutLineWalker_getDescription W prevSel sel =
     (let absSel = setReversed False sel in
      case subWalker_sync W (CursorSelection (start absSel) (start absSel) False) of
        None \<Rightarrow> Some []
      | Some cur \<Rightarrow>
          if node (start absSel) = node (end' absSel) then Some (subWalker_getDescription W prevSel sel)
          else
            (case getDescription_loop W (end' absSel) prevSel (Some cur) [] of
               None \<Rightarrow> None
             | Some (prev, cur', descriptions) \<Rightarrow>
                 (case cur' of
                    None \<Rightarrow> Some descriptions
                  | Some c \<Rightarrow> Some (descriptions @ subWalker_getDescription W prev c))))"

subsection \<open>Braille\<close>

definition appendBraille :: "('n, 'r, 'd) walker \<Rightarrow> 'n cursorSelection \<Rightarrow> 'n cursorSelection \<Rightarrow> 'n cursorSelection \<Rightarrow> 'n navBraille \<Rightarrow> 'n navBraille" where
  "appendBraille W prevSel sel cur braille =
     (let item = subWalker_getBraille W prevSel cur;
          b1 = (if length (brailleText braille) > 0
                then braille\<lparr>brailleText := brailleText braille @ ITEM_SEPARATOR W\<rparr> else braille);
          spanStart = int (length (brailleText b1));
          spanEnd = spanStart + int (length (itemString item));
          b2 = b1\<lparr>brailleText := brailleText b1 @ itemString item,
                  brailleSpans := brailleSpans b1 @ [(node (start cur), spanStart, spanEnd)]\<rparr>
      in if absEquals cur sel then
           (case valueSpanStart item of
              Some v \<Rightarrow>
                if nodeIsInputTypeText W (node (start cur)) \<or> nodeIsTextArea W (node (start cur))
                then b2\<lparr>startIndex := spanStart + v + nodeSelectionStart W (node (start cur)),
                        endIndex := spanStart + v + nodeSelectionEnd W (node (start cur))\<rparr>
                else b2\<lparr>startIndex := spanStart, endIndex := spanStart + 1\<rparr>
            | None \<Rightarrow> b2\<lparr>startIndex := spanStart, endIndex := spanStart + 1\<rparr>)
         else b2)"

partial_function (option) getBraille_loop ::
    "('n, 'r, 'd) walker \<Rightarrow> 'n cursor \<Rightarrow> 'n cursorSelection \<Rightarrow> 'n cursorSelection \<Rightarrow> 'n cursorSelection option
      \<Rightarrow> 'n navBraille \<Rightarrow> ('n cursorSelection \<times> 'n cursorSelection option \<times> 'n navBraille) option" where
  "getBraille_loop W layoutEnd absSel prevSel cur braille =
     (case cur of
        None \<Rightarrow> Some (prevSel, cur, braille)
      | Some c \<Rightarrow>
          if end' c = layoutEnd then Some (prevSel, cur, braille)
          else getBraille_loop W layoutEnd absSel c (subWalker_next W c)
                 (appendBraille W prevSel absSel c braille))"

text \<open>
  \<^verbatim>\<open>var layoutSel = this.sync(sel).setReversed(false)\<close> calls a method on the result of
  \<^verbatim>\<open>sync\<close> before the test \<^verbatim>\<open>if (!layoutSel || !absSel)\<close>: when \<^verbatim>\<open>sync\<close> returns null
  that is a TypeError. The result is \<open>None\<close> when the call does not return.
\<close>

definition LayoutLineWalker_getBraille :: "('n, 'r, 'd) walker \<Rightarrow> 'n cursorSelection \<Rightarrow> 'n cursorSelection \<Rightarrow> (error + 'n navBraille) option" where
  "LayoutLineWalker_getBraille W prevSel sel =
     (let braille = newNavBraille W;
          absSel = subWalker_sync W (setReversed False sel) in
      case LayoutLineWalker_sync W sel of
        None \<Rightarrow> None
      | Some None \<Rightarrow> Some (Inl TypeError)
      | Some (Some l) \<Rightarrow>
          (let layoutSel = setReversed False l in
           case absSel of
             None \<Rightarrow> Some (Inr braille)
           | Some a \<Rightarrow>
               (case subWalker_sync W (CursorSelection (start layoutSel) (start layoutSel) False) of
                  None \<Rightarrow> Some (Inr braille)
                | Some cur \<Rightarrow>
                    (case getBraille_loop W (end' layoutSel) a prevSel (Some cur) braille of
                       None \<Rightarrow> None
                     | Some (prev, cur', b) \<Rightarrow>
                         (case cur' of
                            None \<Rightarrow> Some (Inr b)
                          | Some c \<Rightarrow> Some (Inr (appendBraille W prev a c b)))))))"


section \<open>Fixtures\<close>

subsection \<open>A document of structural lines\<close>

text \<open>
  Modelled from the spec: \<^verbatim>\<open>cvox.StructuralLineWalker\<close> and the rendered geometry are not
  among the source files. For the concrete examples a document is a list of structural
  lines, each a text node (numbered in document order), the length of its text and the
  \<^verbatim>\<open>bottom\<close> of its bounding rectangle. The stand-in for the structural line walker follows
  the walker contract: \<^verbatim>\<open>sync\<close> returns the line of the node the selection starts in,
  \<^verbatim>\<open>next\<close> the nearest line beyond the directed end in the direction of the selection, both
  with the flag of their argument, and null when there is no such line.
\<close>

type_synonym structuralLine = "nat \<times> int \<times> int"

definition lineSelection :: "structuralLine \<Rightarrow> bool \<Rightarrow> nat cursorSelection" where
  "lineSelection l r =
     setReversed r (CursorSelection \<lparr>node = fst l, index = 0\<rparr> \<lparr>node = fst l, index = fst (snd l)\<rparr> False)"

definition linesSync :: "structuralLine list \<Rightarrow> nat cursorSelection \<Rightarrow> nat cursorSelection option" where
  "linesSync ls sel =
     map_option (\<lambda>l. lineSelection l (isReversed sel))
       (find (\<lambda>l. fst l = node (start sel)) ls)"

definition linesNext :: "structuralLine list \<Rightarrow> nat cursorSelection \<Rightarrow> nat cursorSelection option" where
  "linesNext ls sel =
     map_option (\<lambda>l. lineSelection l (isReversed sel))
       (if isReversed sel then find (\<lambda>l. fst l < node (end' sel)) (rev ls)
        else find (\<lambda>l. node (end' sel) < fst l) ls)"

definition linesBottom :: "structuralLine list \<Rightarrow> nat cursorSelection \<Rightarrow> int" where
  "linesBottom ls sel =
     (case find (\<lambda>l. fst l = node (start sel)) ls of None \<Rightarrow> 0 | Some l \<Rightarrow> snd (snd l))"

definition linesWalker :: "structuralLine list \<Rightarrow> (nat, int, nat) walker" where
  "linesWalker ls =
     \<lparr>subWalker_sync = linesSync ls,
      subWalker_next = linesNext ls,
      subWalker_getDescription = (\<lambda>prev cur. [node (start cur)]),
      subWalker_getBraille = (\<lambda>prev cur. \<lparr>itemString = ''line'', valueSpanStart = None\<rparr>),
      boundingBottom = linesBottom ls,
      nodeIsInputTypeText = (\<lambda>n. False),
      nodeIsTextArea = (\<lambda>n. False),
      nodeSelectionStart = (\<lambda>n. 0),
      nodeSelectionEnd = (\<lambda>n. 0),
      ITEM_SEPARATOR = '' '',
      newNavBraille = \<lparr>brailleText = [], brailleSpans = [], startIndex = - 1, endIndex = - 1\<rparr>\<rparr>"

text \<open>Three structural lines of five characters with bottoms 10, 10 and 20.\<close>

definition threeLines :: "structuralLine list" where
  "threeLines = [(1, 5, 10), (2, 5, 10), (3, 5, 20)]"

definition line1 :: "nat cursorSelection" where
  "line1 = \<lparr>start = \<lparr>node = 1, index = 0\<rparr>, end' = \<lparr>node = 1, index = 5\<rparr>, isReversed = False\<rparr>"

definition line3 :: "nat cursorSelection" where
  "line3 = \<lparr>start = \<lparr>node = 3, index = 0\<rparr>, end' = \<lparr>node = 3, index = 5\<rparr>, isReversed = False\<rparr>"

definition line2 :: "nat cursorSelection" where
  "line2 = \<lparr>start = \<lparr>node = 2, index = 0\<rparr>, end' = \<lparr>node = 2, index = 5\<rparr>, isReversed = False\<rparr>"

definition line3Reversed :: "nat cursorSelection" where
  "line3Reversed = \<lparr>start = \<lparr>node = 3, index = 5\<rparr>, end' = \<lparr>node = 3, index = 0\<rparr>, isReversed = True\<rparr>"

definition lines12 :: "nat cursorSelection" where
  "lines12 = \<lparr>start = \<lparr>node = 1, index = 0\<rparr>, end' = \<lparr>node = 2, index = 5\<rparr>, isReversed = False\<rparr>"

text \<open>A selection in a node that is in no line of the document (a detached node).\<close>

definition detached :: "nat cursorSelection" where
  "detached = \<lparr>start = \<lparr>node = 7, index = 0\<rparr>, end' = \<lparr>node = 7, index = 0\<rparr>, isReversed = False\<rparr>"

subsection \<open>A navigation manager\<close>

text \<open>
  Modelled from the spec: the navigation manager is not among the source files. For the
  concrete examples its state is a position in a document of ten positions (0 to 9) and the
  table mode flag; the current cell covers the positions 3 to 5. A move fails at the ends of
  the document and leaves the position unchanged. The predicate of a search is the list of the
  positions that match; a search moves to the nearest match in its direction and fails,
  without moving, when there is none.
\<close>

record position =
  pos :: int
  inTable :: bool

definition positionManager :: "(position, int list, int) navigationManager" where
  "positionManager =
     \<lparr>nm_next = (\<lambda>b m. if pos m < 9 then (True, m\<lparr>pos := pos m + 1\<rparr>) else (False, m)),
      nm_previous = (\<lambda>b m. if 0 < pos m then (True, m\<lparr>pos := pos m - 1\<rparr>) else (False, m)),
      nm_findNext = (\<lambda>p m. case find (\<lambda>i. pos m < i) p of
                               None \<Rightarrow> (False, m) | Some i \<Rightarrow> (True, m\<lparr>pos := i\<rparr>)),
      nm_findPrevious = (\<lambda>p m. case find (\<lambda>i. i < pos m) (rev p) of
                               None \<Rightarrow> (False, m) | Some i \<Rightarrow> (True, m\<lparr>pos := i\<rparr>)),
      nm_inTableMode = inTable,
      nm_checkCellBoundaries = (\<lambda>m. 3 \<le> pos m \<and> pos m \<le> 5),
      nm_getCurrentDescription = (\<lambda>m. [pos m]),
      nm_getChangedAncestors = (\<lambda>m. []),
      nm_setFocus = (\<lambda>m. m),
      nm_syncToSelection = (\<lambda>m. m),
      util = \<lparr>isInputTypeText = (\<lambda>n. False), isLandmark = (\<lambda>n. False), isControlWidget = (\<lambda>n. False)\<rparr>\<rparr>"

definition pageAt :: "int \<Rightarrow> bool \<Rightarrow> (position, int) page" where
  "pageAt i t =
     \<lparr>navigationManager = \<lparr>pos = i, inTable = t\<rparr>, userCommandLevel = 0, now = 0, timers = [], sent = []\<rparr>"


section \<open>Notions the properties are stated with\<close>

text \<open>
  The selections a layout line is merged from. \<open>sameLineChain W e xs\<close> holds when \<open>xs\<close>
  are the selections the substrategy's \<^verbatim>\<open>next\<close> produces one after the other from \<open>e\<close>,
  each with the same \<^verbatim>\<open>bottom\<close> as the selection before it, and the chain cannot go on:
  after its last selection \<^verbatim>\<open>next\<close> returns null or a selection with another
  \<^verbatim>\<open>bottom\<close>.
\<close>

fun sameLineChain :: "('n, 'r, 'd) walker \<Rightarrow> 'n cursorSelection \<Rightarrow> 'n cursorSelection list \<Rightarrow> bool" where
  "sameLineChain W e [] =
     (case subWalker_next W e of
        None \<Rightarrow> True
      | Some nxt \<Rightarrow> boundingBottom W nxt \<noteq> boundingBottom W e)"
| "sameLineChain W e (x # xs) =
     (subWalker_next W e = Some x \<and> boundingBottom W x = boundingBottom W e \<and> sameLineChain W x xs)"

text \<open>
  What \<^verbatim>\<open>playEarcons\<close> plays and returns for a state \<open>m\<close> of the navigation manager,
  and what the loop over the descriptions speaks.
\<close>

definition earconsPlayed :: "('m, 'p, 'd) navigationManager \<Rightarrow> 'm \<Rightarrow> 'd effect list" where
  "earconsPlayed M m =
     (case collectEarcons (util M) (nm_getChangedAncestors M m) [] of
        Inl e \<Rightarrow> []
      | Inr earcons \<Rightarrow> map PlayEarcon earcons)"

definition earconsResult :: "('m, 'p, 'd) navigationManager \<Rightarrow> 'm \<Rightarrow> 'a \<Rightarrow> error + 'a" where
  "earconsResult M m x =
     (case collectEarcons (util M) (nm_getChangedAncestors M m) [] of
        Inl e \<Rightarrow> Inl e
      | Inr earcons \<Rightarrow> Inr x)"

definition descriptionsSpoken :: "'d list \<Rightarrow> nat \<Rightarrow> 'd effect list" where
  "descriptionsSpoken ds queueMode =
     (case ds of
        [] \<Rightarrow> []
      | d # ds' \<Rightarrow> DescriptionSpeak d queueMode # map (\<lambda>d. DescriptionSpeak d 1) ds')"

text \<open>
  The scenario of the guard counter: a page that starts at time 0 with the counter at 0 and
  no timer pending; \<^verbatim>\<open>markInUserCommand_\<close> is called at time 0 and again at time 10.
  \<open>twoRegions M m t\<close> is the state at time \<open>t\<close>.
\<close>

definition initialPage :: "'m \<Rightarrow> ('m, 'd) page" where
  "initialPage m = \<lparr>navigationManager = m, userCommandLevel = 0, now = 0, timers = [], sent = []\<rparr>"

definition twoRegions :: "('m, 'p, 'd) navigationManager \<Rightarrow> 'm \<Rightarrow> nat \<Rightarrow> ('m, 'd) page" where
  "twoRegions M m t =
     (let S1 = markInUserCommand (initialPage m) in
      if t < 10 then advanceTo M t S1
      else advanceTo M t (markInUserCommand (advanceTo M 10 S1)))"

declare extend_loop.simps [code]
declare getDescription_loop.simps [code]
declare getBraille_loop.simps [code]

section \<open>Properties of the predicates\<close>

lemma containsTagName_loop_find:
  "i \<le> length arr \<Longrightarrow>
   containsTagName_loop arr tag i = find (\<lambda>n. tagName n = Some tag) (rev (take i arr))"
proof (induction i)
  case 0
  then show ?case by simp
next
  case (Suc i)
  then have "take (Suc i) arr = take i arr @ [arr ! i]"
    by (simp add: take_Suc_conv_app_nth)
  with Suc show ?case by simp
qed

lemma containsTagName_find:
  "containsTagName arr tag = find (\<lambda>n. tagName n = Some tag) (rev arr)"
  by (simp add: containsTagName_def containsTagName_loop_find)

lemma checkboxPredicate_find:
  "checkboxPredicate nodes =
     find (\<lambda>n. roleIs n ''checkbox'' \<or> (tagName n = Some ''INPUT'' \<and> inputType n = Some ''checkbox'')) nodes"
  by (induction nodes) simp_all

lemma radioPredicate_find:
  "radioPredicate nodes =
     find (\<lambda>n. roleIs n ''radio'' \<or> (tagName n = Some ''INPUT'' \<and> inputType n = Some ''radio'')) nodes"
  by (induction nodes) simp_all

lemma sliderPredicate_find:
  "sliderPredicate nodes =
     find (\<lambda>n. roleIs n ''slider'' \<or> (tagName n = Some ''INPUT'' \<and> inputType n = Some ''range'')) nodes"
  by (induction nodes) simp_all

lemma graphicPredicate_find:
  "graphicPredicate nodes =
     find (\<lambda>n. tagName n = Some ''IMG'' \<or> (tagName n = Some ''INPUT'' \<and> inputType n = Some ''img'')) nodes"
  by (induction nodes) simp_all

lemma buttonPredicate_find:
  "buttonPredicate nodes =
     find (\<lambda>n. roleIs n ''button'' \<or> tagName n = Some ''BUTTON''
              \<or> (tagName n = Some ''INPUT'' \<and> inputType n \<in> {Some ''submit'', Some ''button'', Some ''reset''}))
       nodes"
proof (induction nodes)
  case Nil
  show ?case by simp
next
  case (Cons n nodes)
  then show ?case by (cases "tagName n = Some ''INPUT''") auto
qed

lemma comboBoxPredicate_find:
  "comboBoxPredicate nodes = find (\<lambda>n. roleIs n ''combobox'' \<or> tagName n = Some ''SELECT'') nodes"
  by (induction nodes) simp_all

lemma editTextPredicate_find:
  "editTextPredicate U nodes =
     find (\<lambda>n. roleIs n ''textbox'' \<or> tagName n = Some ''TEXTAREA''
              \<or> (tagName n = Some ''INPUT'' \<and> isInputTypeText U n)) nodes"
  by (induction nodes) simp_all

lemma headingPredicate_find:
  "headingPredicate nodes =
     find (\<lambda>n. roleIs n ''heading'' \<or> tagName n \<in> set (map Some headingTags)) nodes"
  by (induction nodes) simp_all

lemma linkPredicate_find:
  "linkPredicate nodes = find (\<lambda>n. roleIs n ''link'' \<or> tagName n = Some ''A'') nodes"
  by (induction nodes) simp_all

lemma listPredicate_find:
  "listPredicate nodes =
     find (\<lambda>n. roleIs n ''list'' \<or> tagName n = Some ''UL'' \<or> tagName n = Some ''OL'') nodes"
  by (induction nodes) simp_all

lemma listItemPredicate_find:
  "listItemPredicate nodes = find (\<lambda>n. roleIs n ''listitem'' \<or> tagName n = Some ''LI'') nodes"
  by (induction nodes) simp_all

lemma formFieldPredicate_find:
  "formFieldPredicate nodes =
     find (\<lambda>n. formFieldRole n \<in> set (map Some [''button'', ''checkbox'', ''combobox'', ''radio'',
                                                    ''slider'', ''spinbutton'', ''textbox''])
              \<or> tagName n = Some ''INPUT'' \<or> tagName n = Some ''SELECT'' \<or> tagName n = Some ''BUTTON'')
       nodes"
  by (induction nodes) simp_all

lemma jumpPredicate_find:
  "jumpPredicate U nodes =
     find (\<lambda>n. isLandmark U n \<or> roleIs n ''heading'' \<or> tagName n \<in> set (map Some headingTags)) nodes"
  by (induction nodes) simp_all

lemma landmarkPredicate_find:
  "landmarkPredicate U nodes = find (isLandmark U) nodes"
  by (induction nodes) simp_all

text \<open>
  C8. The not-link predicate is the negation of the link predicate: it returns true exactly
  when the link predicate returns null, which is exactly when no node of the array has the
  role \<^verbatim>\<open>link\<close> or the tag name \<^verbatim>\<open>A\<close>.
\<close>

theorem notLinkPredicate_negates_linkPredicate:
  "(notLinkPredicate nodes \<longleftrightarrow> linkPredicate nodes = None)
   \<and> (notLinkPredicate nodes \<longleftrightarrow> \<not> list_ex (\<lambda>n. roleIs n ''link'' \<or> tagName n = Some ''A'') nodes)"
  by (auto simp: notLinkPredicate_def linkPredicate_find find_None_iff list_ex_iff)

text \<open>
  C9. Every category predicate is a function of the array alone (and of the two helpers of
  \<^verbatim>\<open>DomUtil\<close> and \<^verbatim>\<open>AriaUtil\<close> it calls): the predicates with a test of their own
  return the first node, from the front of the array, that passes the test, and the
  predicates that compare the tag name through \<^verbatim>\<open>containsTagName_\<close> (the six heading
  levels, table, blockquote) return the first node from the back, the matching node of the
  highest index.
\<close>

theorem predicates_scan_order:
  "checkboxPredicate nodes =
     find (\<lambda>n. roleIs n ''checkbox'' \<or> (tagName n = Some ''INPUT'' \<and> inputType n = Some ''checkbox'')) nodes
   \<and> radioPredicate nodes =
     find (\<lambda>n. roleIs n ''radio'' \<or> (tagName n = Some ''INPUT'' \<and> inputType n = Some ''radio'')) nodes
   \<and> sliderPredicate nodes =
     find (\<lambda>n. roleIs n ''slider'' \<or> (tagName n = Some ''INPUT'' \<and> inputType n = Some ''range'')) nodes
   \<and> graphicPredicate nodes =
     find (\<lambda>n. tagName n = Some ''IMG'' \<or> (tagName n = Some ''INPUT'' \<and> inputType n = Some ''img'')) nodes
   \<and> buttonPredicate nodes =
     find (\<lambda>n. roleIs n ''button'' \<or> tagName n = Some ''BUTTON''
              \<or> (tagName n = Some ''INPUT'' \<and> inputType n \<in> {Some ''submit'', Some ''button'', Some ''reset''}))
       nodes
   \<and> comboBoxPredicate nodes = find (\<lambda>n. roleIs n ''combobox'' \<or> tagName n = Some ''SELECT'') nodes
   \<and> editTextPredicate U nodes =
     find (\<lambda>n. roleIs n ''textbox'' \<or> tagName n = Some ''TEXTAREA''
              \<or> (tagName n = Some ''INPUT'' \<and> isInputTypeText U n)) nodes
   \<and> headingPredicate nodes =
     find (\<lambda>n. roleIs n ''heading'' \<or> tagName n \<in> set (map Some headingTags)) nodes
   \<and> linkPredicate nodes = find (\<lambda>n. roleIs n ''link'' \<or> tagName n = Some ''A'') nodes
   \<and> listPredicate nodes =
     find (\<lambda>n. roleIs n ''list'' \<or> tagName n = Some ''UL'' \<or> tagName n = Some ''OL'') nodes
   \<and> listItemPredicate nodes = find (\<lambda>n. roleIs n ''listitem'' \<or> tagName n = Some ''LI'') nodes
   \<and> formFieldPredicate nodes =
     find (\<lambda>n. formFieldRole n \<in> set (map Some [''button'', ''checkbox'', ''combobox'', ''radio'',
                                                    ''slider'', ''spinbutton'', ''textbox''])
              \<or> tagName n = Some ''INPUT'' \<or> tagName n = Some ''SELECT'' \<or> tagName n = Some ''BUTTON'')
       nodes
   \<and> jumpPredicate U nodes =
     find (\<lambda>n. isLandmark U n \<or> roleIs n ''heading'' \<or> tagName n \<in> set (map Some headingTags)) nodes
   \<and> landmarkPredicate U nodes = find (isLandmark U) nodes
   \<and> containsTagName nodes tag = find (\<lambda>n. tagName n = Some tag) (rev nodes)
   \<and> heading1Predicate nodes = find (\<lambda>n. tagName n = Some ''H1'') (rev nodes)
   \<and> heading2Predicate nodes = find (\<lambda>n. tagName n = Some ''H2'') (rev nodes)
   \<and> heading3Predicate nodes = find (\<lambda>n. tagName n = Some ''H3'') (rev nodes)
   \<and> heading4Predicate nodes = find (\<lambda>n. tagName n = Some ''H4'') (rev nodes)
   \<and> heading5Predicate nodes = find (\<lambda>n. tagName n = Some ''H5'') (rev nodes)
   \<and> heading6Predicate nodes = find (\<lambda>n. tagName n = Some ''H6'') (rev nodes)
   \<and> tablePredicate nodes = find (\<lambda>n. tagName n = Some ''TABLE'') (rev nodes)
   \<and> blockquotePredicate nodes = find (\<lambda>n. tagName n = Some ''BLOCKQUOTE'') (rev nodes)"
  unfolding heading1Predicate_def heading2Predicate_def heading3Predicate_def
    heading4Predicate_def heading5Predicate_def heading6Predicate_def tablePredicate_def
    blockquotePredicate_def
  by (intro conjI checkboxPredicate_find radioPredicate_find sliderPredicate_find
      graphicPredicate_find buttonPredicate_find comboBoxPredicate_find editTextPredicate_find
      headingPredicate_find linkPredicate_find listPredicate_find listItemPredicate_find
      formFieldPredicate_find jumpPredicate_find landmarkPredicate_find containsTagName_find)

text \<open>
  The two scan orders on an array of two \<^verbatim>\<open>H1\<close> elements: the heading predicate returns
  the first, the predicate for headings of level 1 the second.
\<close>

lemma scan_order_example:
  "map_option nodeId (headingPredicate
     [\<lparr>nodeId = 1, tagName = Some ''H1'', attributes = Some [], inputType = None, checked = False\<rparr>,
      \<lparr>nodeId = 2, tagName = Some ''H1'', attributes = Some [], inputType = None, checked = False\<rparr>]) = Some 1
   \<and> map_option nodeId (heading1Predicate
     [\<lparr>nodeId = 1, tagName = Some ''H1'', attributes = Some [], inputType = None, checked = False\<rparr>,
      \<lparr>nodeId = 2, tagName = Some ''H1'', attributes = Some [], inputType = None, checked = False\<rparr>]) = Some 2"
  by (simp add: heading1Predicate_def containsTagName_def roleIs_def headingTags_def numeral_2_eq_2)

section \<open>Properties of the guard against re-entrancy\<close>

lemma runTimers_level:
  "userCommandLevel (foldl (\<lambda>s df. runTimer M (snd df) s) S xs) =
     userCommandLevel S - int (length (filter (\<lambda>df. snd df = DecrementUserCommandLevel) xs))"
  by (induction xs arbitrary: S) (simp_all add: runTimer_def split: timerAction.splits)

lemma runTimers_timers:
  "timers (foldl (\<lambda>s df. runTimer M (snd df) s) S xs) = timers S"
  by (induction xs arbitrary: S) (simp_all add: runTimer_def split: timerAction.splits)

lemma runTimers_now:
  "now (foldl (\<lambda>s df. runTimer M (snd df) s) S xs) = now S"
  by (induction xs arbitrary: S) (simp_all add: runTimer_def split: timerAction.splits)

text \<open>When the clock reaches \<open>t\<close> the counter has lost one for each decrement due by then.\<close>

lemma advanceTo_level:
  "userCommandLevel (advanceTo M t S) =
     userCommandLevel S
       - int (length (filter (\<lambda>df. fst df \<le> t \<and> snd df = DecrementUserCommandLevel) (timers S)))"
proof -
  have "length (filter (\<lambda>df. snd df = DecrementUserCommandLevel)
                  (sort_key fst (filter (\<lambda>df. fst df \<le> t) (timers S))))
        = length (filter (\<lambda>df. fst df \<le> t \<and> snd df = DecrementUserCommandLevel) (timers S))"
    by (simp add: filter_sort conj_commute)
  then show ?thesis
    by (simp add: advanceTo_def runTimers_level)
qed

lemma advanceTo_timers:
  "timers (advanceTo M t S) = filter (\<lambda>df. \<not> fst df \<le> t) (timers S)"
  by (simp add: advanceTo_def runTimers_timers)

lemma advanceTo_now: "now (advanceTo M t S) = max (now S) t"
  by (simp add: advanceTo_def runTimers_now)

lemma markInUserCommand_level: "userCommandLevel (markInUserCommand S) = userCommandLevel S + 1"
  by (simp add: markInUserCommand_def setTimeout_def)

lemma markInUserCommand_timers:
  "timers (markInUserCommand S) = timers S @ [(now S + 100, DecrementUserCommandLevel)]"
  by (simp add: markInUserCommand_def setTimeout_def)

lemma markInUserCommand_now: "now (markInUserCommand S) = now S"
  by (simp add: markInUserCommand_def setTimeout_def)

text \<open>
  C7. The guard is a counter of nested regions. \<^verbatim>\<open>markInUserCommand_\<close> adds one to it
  and sets a timer, due 100 time units later, whose callback takes one off;
  \<^verbatim>\<open>isInUserCommand\<close> holds exactly when the counter is above zero. A region counts for
  the 100 time units after its own entry, whatever other regions are open. With regions
  entered at the times 0 and 10 the guard holds at every time before 110 and at no time
  from 110 on.
\<close>

theorem user_command_guard_counter:
  "userCommandLevel (markInUserCommand S) = userCommandLevel S + 1
   \<and> timers (markInUserCommand S) = timers S @ [(now S + 100, DecrementUserCommandLevel)]
   \<and> userCommandLevel (runTimer M DecrementUserCommandLevel S) = userCommandLevel S - 1
   \<and> (isInUserCommand S \<longleftrightarrow> 0 < userCommandLevel S)
   \<and> userCommandLevel (advanceTo M t (markInUserCommand S)) =
       userCommandLevel (advanceTo M t S) + (if t < now S + 100 then 1 else 0)
   \<and> (isInUserCommand (twoRegions M m t) \<longleftrightarrow> t < 110)"
proof -
  have "userCommandLevel (advanceTo M t (markInUserCommand S)) =
          userCommandLevel (advanceTo M t S) + (if t < now S + 100 then 1 else 0)"
    by (simp add: advanceTo_level markInUserCommand_level markInUserCommand_timers)
  moreover have "isInUserCommand (twoRegions M m t) \<longleftrightarrow> t < 110"
    by (simp add: twoRegions_def Let_def isInUserCommand_def advanceTo_level advanceTo_timers
        advanceTo_now markInUserCommand_level markInUserCommand_timers markInUserCommand_now
        initialPage_def)
  ultimately show ?thesis
    by (simp add: markInUserCommand_level markInUserCommand_timers runTimer_def
        isInUserCommand_def)
qed

section \<open>Properties of the layout line walker\<close>

subsection \<open>The extension loop\<close>

text \<open>
  Where the chain of selections on the same visual line is finite the loop returns its last
  selection, and the loop returns only where there is such a chain.
\<close>

lemma extend_loop_chain:
  "sameLineChain W s xs \<Longrightarrow> extend_loop W s = Some (last (s # xs))"
proof (induction xs arbitrary: s)
  case Nil
  then show ?case
    by (subst extend_loop.simps) (auto simp: isVisualLineBreak_def split: option.splits)
next
  case (Cons x xs)
  then have "extend_loop W x = Some (last (x # xs))" by simp
  with Cons.prems show ?case
    by (subst extend_loop.simps) (simp add: isVisualLineBreak_def)
qed

lemma extend_loop_returns:
  assumes "extend_loop W s = Some e"
  shows "\<exists>xs. sameLineChain W s xs \<and> e = last (s # xs)"
proof (rule extend_loop.raw_induct
    [where P = "\<lambda>W s e. \<exists>xs. sameLineChain W s xs \<and> e = last (s # xs)", OF _ assms], goal_cases)
  case (1 loop W s e)
  show ?case
  proof (cases "subWalker_next W s")
    case None
    with 1(2) have "e = s" by simp
    with None have "sameLineChain W s [] \<and> e = last (s # [])" by simp
    then show ?thesis by blast
  next
    case (Some nxt)
    show ?thesis
    proof (cases "isVisualLineBreak W s nxt")
      case True
      with Some 1(2) have "e = s" by simp
      with Some True have "sameLineChain W s [] \<and> e = last (s # [])"
        by (auto simp: isVisualLineBreak_def)
      then show ?thesis by blast
    next
      case False
      with Some 1(2) have "loop W nxt = Some e" by simp
      from 1(1)[OF this] obtain xs where "sameLineChain W nxt xs" "e = last (nxt # xs)" by blast
      with Some False have "sameLineChain W s (nxt # xs) \<and> e = last (s # nxt # xs)"
        by (simp add: isVisualLineBreak_def)
      then show ?thesis by blast
    qed
  qed
qed

lemma extend_chain:
  "sameLineChain W s xs \<Longrightarrow>
   LayoutLineWalker_extend W s = Some (CursorSelection (start s) (end' (last (s # xs))) (isReversed s))"
  by (simp add: LayoutLineWalker_extend_def extend_loop_chain del: last.simps)

lemma extend_returns:
  assumes "LayoutLineWalker_extend W s = Some r"
  shows "\<exists>xs. sameLineChain W s xs
           \<and> r = \<lparr>start = start s, end' = end' (last (s # xs)), isReversed = isReversed s\<rparr>"
proof -
  from assms obtain e where e: "extend_loop W s = Some e"
    and r: "r = CursorSelection (start s) (end' e) (isReversed s)"
    by (cases "extend_loop W s") (simp_all add: LayoutLineWalker_extend_def)
  from extend_loop_returns [OF e] obtain xs where xs: "sameLineChain W s xs" and l: "e = last (s # xs)"
    by blast
  from r l have "r = \<lparr>start = start s, end' = end' (last (s # xs)), isReversed = isReversed s\<rparr>"
    by (simp add: CursorSelection_def del: last.simps)
  with xs show ?thesis by (intro exI conjI)
qed

lemma extend_returns_iff:
  "LayoutLineWalker_extend W s \<noteq> None \<longleftrightarrow> (\<exists>xs. sameLineChain W s xs)"
  by (auto simp: LayoutLineWalker_extend_def extend_loop_chain split: option.splits
      dest: extend_loop_returns)

lemma setReversed_isReversed: "isReversed (setReversed r s) = r"
  by (simp add: setReversed_def)

text \<open>
  C1. For a structural line \<open>s\<close>, \<^verbatim>\<open>extend_\<close> returns the selection from the start of
  \<open>s\<close> to the end of the last selection of the chain that the substrategy's \<^verbatim>\<open>next\<close>
  produces from \<open>s\<close> as long as each new selection has exactly the \<^verbatim>\<open>bottom\<close> of the one
  before it; the first selection with another \<^verbatim>\<open>bottom\<close> is left out. It returns
  whenever that chain is finite, and whatever it returns is of this form. With three
  structural lines of bottoms 10, 10 and 20, \<^verbatim>\<open>sync\<close> on the first line returns the layout
  line made of the lines 1 and 2, and \<^verbatim>\<open>next\<close> from that returns line 3.
\<close>

theorem extend_stops_at_visual_line_break:
  "(sameLineChain W s xs \<longrightarrow>
      LayoutLineWalker_extend W s =
        Some \<lparr>start = start s, end' = end' (last (s # xs)), isReversed = isReversed s\<rparr>)
   \<and> (\<forall>r. LayoutLineWalker_extend W s = Some r \<longrightarrow>
        (\<exists>ys. sameLineChain W s ys
           \<and> r = \<lparr>start = start s, end' = end' (last (s # ys)), isReversed = isReversed s\<rparr>))
   \<and> map (boundingBottom (linesWalker threeLines)) [line1, line2, line3] = [10, 10, 20]
   \<and> LayoutLineWalker_sync (linesWalker threeLines) line1 = Some (Some lines12)
   \<and> LayoutLineWalker_next (linesWalker threeLines) lines12 = Some (Some line3)"
proof -
  have "map (boundingBottom (linesWalker threeLines)) [line1, line2, line3] = [10, 10, 20]"
    by code_simp
  moreover have "LayoutLineWalker_sync (linesWalker threeLines) line1 = Some (Some lines12)"
    by code_simp
  moreover have "LayoutLineWalker_next (linesWalker threeLines) lines12 = Some (Some line3)"
    by code_simp
  moreover have "\<forall>r. LayoutLineWalker_extend W s = Some r \<longrightarrow>
        (\<exists>ys. sameLineChain W s ys
           \<and> r = \<lparr>start = start s, end' = end' (last (s # ys)), isReversed = isReversed s\<rparr>)"
    using extend_returns [of W s] by blast
  moreover have "sameLineChain W s xs \<longrightarrow>
      LayoutLineWalker_extend W s =
        Some \<lparr>start = start s, end' = end' (last (s # xs)), isReversed = isReversed s\<rparr>"
    using extend_chain [of W s xs] by (simp add: CursorSelection_def del: last.simps)
  ultimately show ?thesis
    by (intro conjI)
qed

theorem extend_stops_at_visual_line_break_witness:
  "sameLineChain (linesWalker threeLines) line1 [line2]
   \<and> LayoutLineWalker_extend (linesWalker threeLines) line1 = Some lines12"
proof -
  have chain: "sameLineChain (linesWalker threeLines) line1 [line2]"
    by code_simp
  have v: "\<lparr>start = start line1, end' = end' (last (line1 # [line2])), isReversed = isReversed line1\<rparr>
             = lines12"
    by code_simp
  from extend_stops_at_visual_line_break [of "linesWalker threeLines" line1 "[line2]", THEN conjunct1]
    chain
  have "LayoutLineWalker_extend (linesWalker threeLines) line1 =
          Some \<lparr>start = start line1, end' = end' (last (line1 # [line2])), isReversed = isReversed line1\<rparr>"
    by (rule mp)
  then have "LayoutLineWalker_extend (linesWalker threeLines) line1 = Some lines12"
    unfolding v .
  with chain show ?thesis
    by (rule conjI)
qed

text \<open>
  C2, as stated, fails: \<^verbatim>\<open>next\<close> ends with \<^verbatim>\<open>setReversed(false)\<close>. From the reversed
  selection of line 3 it returns the layout line of the lines 1 and 2 with the flag false,
  not the flag of its argument.
\<close>

theorem next_reversed_flag_counterexample:
  "LayoutLineWalker_next (linesWalker threeLines) line3Reversed = Some (Some lines12)
   \<and> isReversed lines12 \<noteq> isReversed line3Reversed"
  by code_simp

text \<open>
  C2, amended. When the substrategy can sync the selection collapsed to the directed end
  of \<open>s\<close> and can advance from it to \<open>st\<close>, \<^verbatim>\<open>next\<close> extends \<open>st\<close>, directed as \<open>s\<close>
  is, into the layout line \<open>l\<close> (from the start of \<open>st\<close> to the end of the last selection on
  the same visual line, with the flag of \<open>s\<close>) and returns \<open>l\<close> after
  \<^verbatim>\<open>setReversed(false)\<close>: the flag of the result is always false.
\<close>

theorem next_returns_unreversed_layout_line:
  assumes "subWalker_sync W (CursorSelection (end' s) (end' s) (isReversed s)) = Some y"
    and "subWalker_next W (CursorSelection (end' s) (end' s) (isReversed s)) = Some st"
    and "sameLineChain W (setReversed (isReversed s) st) xs"
  shows "\<exists>l. LayoutLineWalker_extend W (setReversed (isReversed s) st) = Some l
           \<and> start l = start (setReversed (isReversed s) st)
           \<and> end' l = end' (last (setReversed (isReversed s) st # xs))
           \<and> isReversed l = isReversed s
           \<and> LayoutLineWalker_next W s = Some (Some (setReversed False l))
           \<and> isReversed (setReversed False l) = False"
  using assms extend_chain [OF assms(3)]
  by (simp add: LayoutLineWalker_next_def Let_def setReversed_isReversed CursorSelection_def
      del: last.simps)

theorem next_returns_unreversed_layout_line_witness:
  "subWalker_sync (linesWalker threeLines)
       (CursorSelection (end' line3Reversed) (end' line3Reversed) (isReversed line3Reversed))
     = Some line3Reversed
   \<and> subWalker_next (linesWalker threeLines)
       (CursorSelection (end' line3Reversed) (end' line3Reversed) (isReversed line3Reversed))
     = Some (setReversed True line2)
   \<and> sameLineChain (linesWalker threeLines)
       (setReversed (isReversed line3Reversed) (setReversed True line2)) [setReversed True line1]
   \<and> LayoutLineWalker_next (linesWalker threeLines) line3Reversed = Some (Some lines12)
   \<and> isReversed lines12 = False"
proof -
  have h1: "subWalker_sync (linesWalker threeLines)
       (CursorSelection (end' line3Reversed) (end' line3Reversed) (isReversed line3Reversed))
     = Some line3Reversed"
    by code_simp
  have h2: "subWalker_next (linesWalker threeLines)
       (CursorSelection (end' line3Reversed) (end' line3Reversed) (isReversed line3Reversed))
     = Some (setReversed True line2)"
    by code_simp
  have h3: "sameLineChain (linesWalker threeLines)
       (setReversed (isReversed line3Reversed) (setReversed True line2)) [setReversed True line1]"
    by code_simp
  have v: "LayoutLineWalker_next (linesWalker threeLines) line3Reversed = Some (Some lines12)"
    by code_simp
  from next_returns_unreversed_layout_line [OF h1 h2 h3]
  have "isReversed lines12 = False"
    unfolding v by (elim exE conjE) simp
  with h1 h2 h3 v show ?thesis by blast
qed

text \<open>
  C3. When the substrategy syncs \<open>s\<close> to the structural line \<open>line\<close>, \<^verbatim>\<open>sync\<close> extends
  \<open>line\<close> forward to \<open>F\<close> and, turned round, backward to \<open>B\<close>, and returns the selection
  from the start of the backward extension (\<open>B\<close> read in the direction of \<open>line\<close>, that is
  the far end of the last selection of the backward chain) to the end of the forward
  extension (the end of the last selection of the forward chain), with the flag of \<open>s\<close>.
\<close>

theorem sync_spans_both_extensions:
  assumes "subWalker_sync W s = Some line"
    and "sameLineChain W line fs"
    and "sameLineChain W (setReversed (\<not> isReversed line) line) bs"
  shows "\<exists>F B. LayoutLineWalker_extend W line = Some F
           \<and> LayoutLineWalker_extend W (setReversed (\<not> isReversed line) line) = Some B
           \<and> end' F = end' (last (line # fs))
           \<and> start (setReversed (isReversed line) B)
               = end' (last (setReversed (\<not> isReversed line) line # bs))
           \<and> LayoutLineWalker_sync W s =
               Some (Some \<lparr>start = start (setReversed (isReversed line) B), end' = end' F,
                            isReversed = isReversed s\<rparr>)"
  using assms extend_chain [OF assms(2)] extend_chain [OF assms(3)]
  by (simp add: LayoutLineWalker_sync_def CursorSelection_def setReversed_def del: last.simps)

theorem sync_spans_both_extensions_witness:
  "subWalker_sync (linesWalker threeLines) line2 = Some line2
   \<and> sameLineChain (linesWalker threeLines) line2 []
   \<and> sameLineChain (linesWalker threeLines) (setReversed (\<not> isReversed line2) line2)
        [setReversed True line1]
   \<and> LayoutLineWalker_sync (linesWalker threeLines) line2 = Some (Some lines12)"
proof -
  have h1: "subWalker_sync (linesWalker threeLines) line2 = Some line2"
    by code_simp
  have h2: "sameLineChain (linesWalker threeLines) line2 []"
    by code_simp
  have h3: "sameLineChain (linesWalker threeLines) (setReversed (\<not> isReversed line2) line2)
        [setReversed True line1]"
    by code_simp
  from sync_spans_both_extensions [OF h1 h2 h3]
  obtain F B :: "nat cursorSelection"
    where F: "end' F = end' (last (line2 # []))"
      and B: "start (setReversed (isReversed line2) B)
                = end' (last (setReversed (\<not> isReversed line2) line2 # [setReversed True line1]))"
      and r: "LayoutLineWalker_sync (linesWalker threeLines) line2 =
                Some (Some \<lparr>start = start (setReversed (isReversed line2) B), end' = end' F,
                             isReversed = isReversed line2\<rparr>)"
    by blast
  have "\<lparr>start = end' (last (setReversed (\<not> isReversed line2) line2 # [setReversed True line1])),
         end' = end' (last (line2 # [])), isReversed = isReversed line2\<rparr> = lines12"
    by code_simp
  with r have "LayoutLineWalker_sync (linesWalker threeLines) line2 = Some (Some lines12)"
    unfolding F B by simp
  with h1 h2 h3 show ?thesis by blast
qed

text \<open>
  C4, as stated, fails for \<^verbatim>\<open>sync\<close>: line 3 is the last line of the document, the
  substrategy has nothing after it, and \<^verbatim>\<open>sync\<close> on it returns the layout line of
  line 3, not null.
\<close>

theorem sync_at_boundary_counterexample:
  "subWalker_next (linesWalker threeLines)
       (CursorSelection (end' line3) (end' line3) (isReversed line3)) = None
   \<and> LayoutLineWalker_sync (linesWalker threeLines) line3 = Some (Some line3)"
  by code_simp

text \<open>
  C4, amended. When the substrategy has nothing beyond the directed end of \<open>s\<close>,
  \<^verbatim>\<open>next\<close> returns null, at every call, since it depends on \<open>s\<close> only. \<^verbatim>\<open>sync\<close>
  returns null exactly when the substrategy's \<^verbatim>\<open>sync\<close> does; at a boundary it does not
  wrap either: a line after which the substrategy has nothing is extended to itself.
\<close>

theorem boundary_next_null_sync_no_wrap:
  "(subWalker_next W (CursorSelection (end' s) (end' s) (isReversed s)) = None \<longrightarrow>
      LayoutLineWalker_next W s = Some None)
   \<and> (LayoutLineWalker_sync W s = Some None \<longleftrightarrow> subWalker_sync W s = None)
   \<and> (subWalker_next W line = None \<longrightarrow>
        LayoutLineWalker_extend W line =
          Some \<lparr>start = start line, end' = end' line, isReversed = isReversed line\<rparr>)"
proof -
  have "subWalker_next W line = None \<Longrightarrow> sameLineChain W line []" by simp
  from extend_chain [OF this] show ?thesis
    by (auto simp: LayoutLineWalker_next_def LayoutLineWalker_sync_def Let_def CursorSelection_def
        split: option.splits)
qed

theorem boundary_next_null_sync_no_wrap_witness:
  "subWalker_next (linesWalker threeLines)
       (CursorSelection (end' line3) (end' line3) (isReversed line3)) = None
   \<and> LayoutLineWalker_next (linesWalker threeLines) line3 = Some None
   \<and> subWalker_next (linesWalker threeLines) line3 = None
   \<and> LayoutLineWalker_extend (linesWalker threeLines) line3 = Some line3"
proof -
  have h1: "subWalker_next (linesWalker threeLines)
       (CursorSelection (end' line3) (end' line3) (isReversed line3)) = None"
    by code_simp
  have h2: "subWalker_next (linesWalker threeLines) line3 = None"
    by code_simp
  have "\<lparr>start = start line3, end' = end' line3, isReversed = isReversed line3\<rparr> = line3"
    by simp
  with h1 h2 boundary_next_null_sync_no_wrap [of "linesWalker threeLines" line3 line3]
  show ?thesis by simp
qed

subsection \<open>Descriptions and braille of a selection that cannot be synced\<close>

lemma getDescription_unsyncable:
  "subWalker_sync W (CursorSelection (start (setReversed False sel)) (start (setReversed False sel)) False) = None
   \<Longrightarrow> LayoutLineWalker_getDescription W prevSel sel = Some []"
  by (simp add: LayoutLineWalker_getDescription_def Let_def)

lemma getBraille_unsyncable:
  "subWalker_sync W sel = None \<Longrightarrow> LayoutLineWalker_getBraille W prevSel sel = Some (Inl TypeError)"
  by (simp add: LayoutLineWalker_getBraille_def LayoutLineWalker_sync_def Let_def)

text \<open>
  C10. For a selection the substrategy cannot sync (here a selection in a node outside the
  document) \<^verbatim>\<open>getDescription\<close> returns the empty array, but \<^verbatim>\<open>getBraille\<close> does not
  return the empty braille: \<^verbatim>\<open>this.sync(sel)\<close> is null and the call of
  \<^verbatim>\<open>setReversed\<close> on it throws a TypeError before the test for null is reached.
\<close>

theorem getBraille_unsyncable_throws:
  "subWalker_sync (linesWalker threeLines) detached = None
   \<and> subWalker_sync (linesWalker threeLines) (setReversed False detached) = None
   \<and> LayoutLineWalker_getDescription (linesWalker threeLines) line1 detached = Some []
   \<and> LayoutLineWalker_getBraille (linesWalker threeLines) line1 detached = Some (Inl TypeError)"
  by code_simp

section \<open>Properties of the commands\<close>

lemma speakDescriptions_queued:
  "speakDescriptions ds 1 S = S\<lparr>sent := sent S @ map (\<lambda>d. DescriptionSpeak d 1) ds\<rparr>"
  by (induction ds arbitrary: S) (simp_all add: send_def)

lemma speakDescriptions_eq:
  "speakDescriptions ds q S = S\<lparr>sent := sent S @ descriptionsSpoken ds q\<rparr>"
  by (cases ds)
    (simp_all add: descriptionsSpoken_def speakDescriptions_queued send_def flip: One_nat_def)

lemma descriptionsSpoken_queued: "descriptionsSpoken ds 1 = map (\<lambda>d. DescriptionSpeak d 1) ds"
  by (cases ds) (simp_all add: descriptionsSpoken_def)

lemma playEarcons_foldl:
  "foldl (\<lambda>s e. send (PlayEarcon e) s) S es = S\<lparr>sent := sent S @ map PlayEarcon es\<rparr>"
  by (induction es arbitrary: S) (simp_all add: send_def)

lemma playEarcons_eq:
  "playEarcons M S =
     (earconsResult M (navigationManager S) (),
      S\<lparr>sent := sent S @ earconsPlayed M (navigationManager S)\<rparr>)"
  by (simp add: playEarcons_def earconsResult_def earconsPlayed_def playEarcons_foldl
      split: sum.splits)

text \<open>
  All that \<^verbatim>\<open>finishNavCommand\<close> does: it syncs the manager to the selection, sets the
  timer for the focus, scrolls, speaks the prefix when there is one and then the
  descriptions read before the sync, and plays the earcons.
\<close>

lemma finishNavCommand_eq:
  "finishNavCommand M prefix S =
     (earconsResult M (nm_syncToSelection M (navigationManager S)) (),
      S\<lparr>navigationManager := nm_syncToSelection M (navigationManager S),
        timers := timers S @ [(now S, SetFocus)],
        sent := sent S @ ScrollToSelection # (if prefix \<noteq> [] then [TtsSpeak prefix 0] else [])
                  @ descriptionsSpoken (nm_getCurrentDescription M (navigationManager S))
                      (if prefix \<noteq> [] then 1 else 0)
                  @ earconsPlayed M (nm_syncToSelection M (navigationManager S))\<rparr>)"
  by (simp add: finishNavCommand_def Let_def playEarcons_eq speakDescriptions_eq send_def
      setTimeout_def)

lemma forward_end_of_cell:
  assumes "nm_inTableMode M (snd (nm_next M True (navigationManager S)))"
    and "\<not> nm_checkCellBoundaries M (snd (nm_next M True (navigationManager S)))"
  shows "forward M S =
     (let undo = nm_previous M True (snd (nm_next M True (navigationManager S)));
          m3 = nm_syncToSelection M (snd undo)
      in (earconsResult M m3 (\<not> fst undo),
          S\<lparr>navigationManager := m3,
            userCommandLevel := userCommandLevel S + 1,
            timers := timers S @ [(now S + 100, DecrementUserCommandLevel), (now S, SetFocus)],
            sent := sent S @ [ScrollToSelection, TtsSpeak ''End of cell. '' 0]
                      @ map (\<lambda>d. DescriptionSpeak d 1) (nm_getCurrentDescription M (snd undo))
                      @ earconsPlayed M m3\<rparr>))"
  using assms
  by (simp add: forward_def Let_def finishNavCommand_eq markInUserCommand_def setTimeout_def
      descriptionsSpoken_queued earconsResult_def case_prod_beta del: One_nat_def
      split: sum.splits)

lemma backward_end_of_cell:
  assumes "nm_inTableMode M (snd (nm_previous M True (navigationManager S)))"
    and "\<not> nm_checkCellBoundaries M (snd (nm_previous M True (navigationManager S)))"
  shows "backward M S =
     (let undo = nm_next M True (snd (nm_previous M True (navigationManager S)));
          m3 = nm_syncToSelection M (snd undo)
      in (earconsResult M m3 (\<not> fst undo),
          S\<lparr>navigationManager := m3,
            userCommandLevel := userCommandLevel S + 1,
            timers := timers S @ [(now S + 100, DecrementUserCommandLevel), (now S, SetFocus)],
            sent := sent S @ [ScrollToSelection, TtsSpeak ''End of cell. '' 0]
                      @ map (\<lambda>d. DescriptionSpeak d 1) (nm_getCurrentDescription M (snd undo))
                      @ earconsPlayed M m3\<rparr>))"
  using assms
  by (simp add: backward_def Let_def finishNavCommand_eq markInUserCommand_def setTimeout_def
      descriptionsSpoken_queued earconsResult_def case_prod_beta del: One_nat_def
      split: sum.splits)

text \<open>
  C5. When the manager is in table mode after the move of \<^verbatim>\<open>forward\<close> and
  \<^verbatim>\<open>checkCellBoundaries\<close> fails, the command makes one move in the opposite direction
  (\<^verbatim>\<open>previous\<close>), and what it speaks starts with "End of cell. ", followed by the
  descriptions at the position after the move back: the manager is left where \<^verbatim>\<open>next\<close>,
  \<^verbatim>\<open>previous\<close> and the sync of \<^verbatim>\<open>finishNavCommand\<close> put it, and the command calls
  nothing that leaves table mode. \<^verbatim>\<open>backward\<close> does the same with the directions exchanged.
\<close>

theorem end_of_cell_undoes_the_move:
  "(nm_inTableMode M (snd (nm_next M True (navigationManager S)))
      \<and> \<not> nm_checkCellBoundaries M (snd (nm_next M True (navigationManager S))) \<longrightarrow>
    forward M S =
      (let undo = nm_previous M True (snd (nm_next M True (navigationManager S)));
           m3 = nm_syncToSelection M (snd undo)
       in (earconsResult M m3 (\<not> fst undo),
           S\<lparr>navigationManager := m3,
             userCommandLevel := userCommandLevel S + 1,
             timers := timers S @ [(now S + 100, DecrementUserCommandLevel), (now S, SetFocus)],
             sent := sent S @ [ScrollToSelection, TtsSpeak ''End of cell. '' 0]
                       @ map (\<lambda>d. DescriptionSpeak d 1) (nm_getCurrentDescription M (snd undo))
                       @ earconsPlayed M m3\<rparr>)))
   \<and> (nm_inTableMode M (snd (nm_previous M True (navigationManager S)))
      \<and> \<not> nm_checkCellBoundaries M (snd (nm_previous M True (navigationManager S))) \<longrightarrow>
    backward M S =
      (let undo = nm_next M True (snd (nm_previous M True (navigationManager S)));
           m3 = nm_syncToSelection M (snd undo)
       in (earconsResult M m3 (\<not> fst undo),
           S\<lparr>navigationManager := m3,
             userCommandLevel := userCommandLevel S + 1,
             timers := timers S @ [(now S + 100, DecrementUserCommandLevel), (now S, SetFocus)],
             sent := sent S @ [ScrollToSelection, TtsSpeak ''End of cell. '' 0]
                       @ map (\<lambda>d. DescriptionSpeak d 1) (nm_getCurrentDescription M (snd undo))
                       @ earconsPlayed M m3\<rparr>)))"
  using forward_end_of_cell [of M S] backward_end_of_cell [of M S] by blast

text \<open>
  In the cell of the positions 3 to 5: \<^verbatim>\<open>forward\<close> from position 5 and \<^verbatim>\<open>backward\<close>
  from position 3 leave the cell, move back, stay in table mode and say "End of cell. ".
\<close>

theorem end_of_cell_undoes_the_move_witness:
  "nm_inTableMode positionManager (snd (nm_next positionManager True (navigationManager (pageAt 5 True))))
   \<and> \<not> nm_checkCellBoundaries positionManager
         (snd (nm_next positionManager True (navigationManager (pageAt 5 True))))
   \<and> forward positionManager (pageAt 5 True) =
       (Inr False,
        \<lparr>navigationManager = \<lparr>pos = 5, inTable = True\<rparr>, userCommandLevel = 1, now = 0,
         timers = [(100, DecrementUserCommandLevel), (0, SetFocus)],
         sent = [ScrollToSelection, TtsSpeak ''End of cell. '' 0, DescriptionSpeak 5 1]\<rparr>)
   \<and> nm_inTableMode positionManager (snd (nm_previous positionManager True (navigationManager (pageAt 3 True))))
   \<and> \<not> nm_checkCellBoundaries positionManager
         (snd (nm_previous positionManager True (navigationManager (pageAt 3 True))))
   \<and> backward positionManager (pageAt 3 True) =
       (Inr False,
        \<lparr>navigationManager = \<lparr>pos = 3, inTable = True\<rparr>, userCommandLevel = 1, now = 0,
         timers = [(100, DecrementUserCommandLevel), (0, SetFocus)],
         sent = [ScrollToSelection, TtsSpeak ''End of cell. '' 0, DescriptionSpeak 3 1]\<rparr>)"
  using end_of_cell_undoes_the_move [of positionManager "pageAt 5 True"]
    end_of_cell_undoes_the_move [of positionManager "pageAt 3 True"]
  by (simp add: positionManager_def pageAt_def Let_def earconsResult_def earconsPlayed_def)

text \<open>
  C6. When \<^verbatim>\<open>findNext\<close> fails, \<^verbatim>\<open>findNextAndSpeak_\<close> speaks the message of its caller
  and nothing else, and leaves the manager as \<^verbatim>\<open>findNext\<close> left it. When it succeeds,
  the driver makes one move backward and then runs the \<^verbatim>\<open>forward\<close> command, which
  makes the move forward and describes the result as for any step. The same holds of
  \<^verbatim>\<open>findPreviousAndSpeak_\<close> with \<^verbatim>\<open>findPrevious\<close>, which also moves backward and then
  runs \<^verbatim>\<open>forward\<close>.
\<close>

theorem find_and_speak:
  "(\<not> fst (nm_findNext M p (navigationManager S)) \<longrightarrow>
      findNextAndSpeak M p errorStr S =
        (Inr (), S\<lparr>navigationManager := snd (nm_findNext M p (navigationManager S)),
                   userCommandLevel := userCommandLevel S + 1,
                   timers := timers S @ [(now S + 100, DecrementUserCommandLevel)],
                   sent := sent S @ [TtsSpeak errorStr 0]\<rparr>))
   \<and> (fst (nm_findNext M p (navigationManager S)) \<longrightarrow>
      findNextAndSpeak M p errorStr S =
        (let back = snd (nm_previous M True (snd (nm_findNext M p (navigationManager S))));
             replay = forward M ((markInUserCommand S)\<lparr>navigationManager := back\<rparr>)
         in (map_sum id (\<lambda>_. ()) (fst replay), snd replay)))
   \<and> (\<not> fst (nm_findPrevious M p (navigationManager S)) \<longrightarrow>
      findPreviousAndSpeak M p errorStr S =
        (Inr (), S\<lparr>navigationManager := snd (nm_findPrevious M p (navigationManager S)),
                   userCommandLevel := userCommandLevel S + 1,
                   timers := timers S @ [(now S + 100, DecrementUserCommandLevel)],
                   sent := sent S @ [TtsSpeak errorStr 0]\<rparr>))
   \<and> (fst (nm_findPrevious M p (navigationManager S)) \<longrightarrow>
      findPreviousAndSpeak M p errorStr S =
        (let back = snd (nm_previous M True (snd (nm_findPrevious M p (navigationManager S))));
             replay = forward M ((markInUserCommand S)\<lparr>navigationManager := back\<rparr>)
         in (map_sum id (\<lambda>_. ()) (fst replay), snd replay)))"
  by (simp add: findNextAndSpeak_def findPreviousAndSpeak_def Let_def case_prod_beta
      markInUserCommand_def setTimeout_def send_def)

text \<open>
  From position 5, with a single match at position 7: the search forward succeeds and ends
  on 7 after the move back to 6 and the move forward, the search backward fails with the
  message of the caller. With the match at position 2 it is the other way round.
\<close>

theorem find_and_speak_witness:
  "fst (nm_findNext positionManager [7] (navigationManager (pageAt 5 False)))
   \<and> findNextAndSpeak positionManager [7] ''No next heading.'' (pageAt 5 False) =
       (Inr (),
        \<lparr>navigationManager = \<lparr>pos = 7, inTable = False\<rparr>, userCommandLevel = 2, now = 0,
         timers = [(100, DecrementUserCommandLevel), (100, DecrementUserCommandLevel), (0, SetFocus)],
         sent = [ScrollToSelection, DescriptionSpeak 7 0]\<rparr>)
   \<and> \<not> fst (nm_findPrevious positionManager [7] (navigationManager (pageAt 5 False)))
   \<and> findPreviousAndSpeak positionManager [7] ''No previous heading.'' (pageAt 5 False) =
       (Inr (),
        \<lparr>navigationManager = \<lparr>pos = 5, inTable = False\<rparr>, userCommandLevel = 1, now = 0,
         timers = [(100, DecrementUserCommandLevel)],
         sent = [TtsSpeak ''No previous heading.'' 0]\<rparr>)
   \<and> \<not> fst (nm_findNext positionManager [2] (navigationManager (pageAt 5 False)))
   \<and> findNextAndSpeak positionManager [2] ''No next heading.'' (pageAt 5 False) =
       (Inr (),
        \<lparr>navigationManager = \<lparr>pos = 5, inTable = False\<rparr>, userCommandLevel = 1, now = 0,
         timers = [(100, DecrementUserCommandLevel)],
         sent = [TtsSpeak ''No next heading.'' 0]\<rparr>)
   \<and> fst (nm_findPrevious positionManager [2] (navigationManager (pageAt 5 False)))
   \<and> findPreviousAndSpeak positionManager [2] ''No previous heading.'' (pageAt 5 False) =
       (Inr (),
        \<lparr>navigationManager = \<lparr>pos = 2, inTable = False\<rparr>, userCommandLevel = 2, now = 0,
         timers = [(100, DecrementUserCommandLevel), (100, DecrementUserCommandLevel), (0, SetFocus)],
         sent = [ScrollToSelection, DescriptionSpeak 2 0]\<rparr>)"
proof -
  have f7: "fst (nm_findNext positionManager [7] (navigationManager (pageAt 5 False)))"
    and p7: "\<not> fst (nm_findPrevious positionManager [7] (navigationManager (pageAt 5 False)))"
    and f2: "\<not> fst (nm_findNext positionManager [2] (navigationManager (pageAt 5 False)))"
    and p2: "fst (nm_findPrevious positionManager [2] (navigationManager (pageAt 5 False)))"
    by (simp_all add: positionManager_def pageAt_def)
  have replay6: "forward positionManager
           ((markInUserCommand (pageAt 5 False))\<lparr>navigationManager := \<lparr>pos = 6, inTable = False\<rparr>\<rparr>) =
       (Inr False,
        \<lparr>navigationManager = \<lparr>pos = 7, inTable = False\<rparr>, userCommandLevel = 2, now = 0,
         timers = [(100, DecrementUserCommandLevel), (100, DecrementUserCommandLevel), (0, SetFocus)],
         sent = [ScrollToSelection, DescriptionSpeak 7 0]\<rparr>)"
    by code_simp
  have replay1: "forward positionManager
           ((markInUserCommand (pageAt 5 False))\<lparr>navigationManager := \<lparr>pos = 1, inTable = False\<rparr>\<rparr>) =
       (Inr False,
        \<lparr>navigationManager = \<lparr>pos = 2, inTable = False\<rparr>, userCommandLevel = 2, now = 0,
         timers = [(100, DecrementUserCommandLevel), (100, DecrementUserCommandLevel), (0, SetFocus)],
         sent = [ScrollToSelection, DescriptionSpeak 2 0]\<rparr>)"
    by code_simp
  have back6: "snd (nm_previous positionManager True
                 (snd (nm_findNext positionManager [7] (navigationManager (pageAt 5 False)))))
               = \<lparr>pos = 6, inTable = False\<rparr>"
    and back1: "snd (nm_previous positionManager True
                 (snd (nm_findPrevious positionManager [2] (navigationManager (pageAt 5 False)))))
               = \<lparr>pos = 1, inTable = False\<rparr>"
    by (simp_all add: positionManager_def pageAt_def)
  have stay7: "snd (nm_findPrevious positionManager [7] (navigationManager (pageAt 5 False)))
               = \<lparr>pos = 5, inTable = False\<rparr>"
    and stay2: "snd (nm_findNext positionManager [2] (navigationManager (pageAt 5 False)))
               = \<lparr>pos = 5, inTable = False\<rparr>"
    by (simp_all add: positionManager_def pageAt_def)
  from find_and_speak [of positionManager "[7]" "pageAt 5 False" "''No next heading.''"] f7
  have a: "findNextAndSpeak positionManager [7] ''No next heading.'' (pageAt 5 False) =
       (Inr (),
        \<lparr>navigationManager = \<lparr>pos = 7, inTable = False\<rparr>, userCommandLevel = 2, now = 0,
         timers = [(100, DecrementUserCommandLevel), (100, DecrementUserCommandLevel), (0, SetFocus)],
         sent = [ScrollToSelection, DescriptionSpeak 7 0]\<rparr>)"
    by (simp add: Let_def back6 replay6)
  from find_and_speak [of positionManager "[7]" "pageAt 5 False" "''No previous heading.''"] p7
  have b: "findPreviousAndSpeak positionManager [7] ''No previous heading.'' (pageAt 5 False) =
       (Inr (),
        \<lparr>navigationManager = \<lparr>pos = 5, inTable = False\<rparr>, userCommandLevel = 1, now = 0,
         timers = [(100, DecrementUserCommandLevel)],
         sent = [TtsSpeak ''No previous heading.'' 0]\<rparr>)"
    by (simp add: stay7) (simp add: pageAt_def)
  from find_and_speak [of positionManager "[2]" "pageAt 5 False" "''No next heading.''"] f2
  have c: "findNextAndSpeak positionManager [2] ''No next heading.'' (pageAt 5 False) =
       (Inr (),
        \<lparr>navigationManager = \<lparr>pos = 5, inTable = False\<rparr>, userCommandLevel = 1, now = 0,
         timers = [(100, DecrementUserCommandLevel)],
         sent = [TtsSpeak ''No next heading.'' 0]\<rparr>)"
    by (simp add: stay2) (simp add: pageAt_def)
  from find_and_speak [of positionManager "[2]" "pageAt 5 False" "''No previous heading.''"] p2
  have d: "findPreviousAndSpeak positionManager [2] ''No previous heading.'' (pageAt 5 False) =
       (Inr (),
        \<lparr>navigationManager = \<lparr>pos = 2, inTable = False\<rparr>, userCommandLevel = 2, now = 0,
         timers = [(100, DecrementUserCommandLevel), (100, DecrementUserCommandLevel), (0, SetFocus)],
         sent = [ScrollToSelection, DescriptionSpeak 2 0]\<rparr>)"
    by (simp add: Let_def back1 replay1)
  from f7 p7 f2 p2 a b c d show ?thesis by blast
qed

end
